theory Spec2Isabelle
  imports Complex_Main "HOL-Library.Sublist" "HOL-Library.Word"
begin

unbundle bit_operations_syntax

section \<open>Python values\<close>

text \<open>
  A Python \<open>str\<close> is a sequence of Unicode code points, and \<open>len\<close> and slicing count
  code points. A character is modelled by its code point, a string by the list of them.
  Literals of the source that are plain ASCII are written through \<open>py\<close>; the two emoji
  of the messages are given by their code points.
\<close>

type_synonym pychar = nat
type_synonym pystr = "pychar list"
type_synonym byte = "8 word"

definition py :: "string \<Rightarrow> pystr" where
  "py s = map of_char s"

definition cross_mark :: pystr where
  \<comment> \<open>U+274C, the first character of every failure message of \<open>generate_insights\<close>\<close>
  "cross_mark = [0x274C]"

definition check_mark :: pystr where
  \<comment> \<open>U+2705\<close>
  "check_mark = [0x2705]"

definition startswith :: "pystr \<Rightarrow> pystr \<Rightarrow> bool" where
  "startswith s p = prefix p s"

definition endswith :: "pystr \<Rightarrow> pystr \<Rightarrow> bool" where
  "endswith s p = suffix p s"

definition isspace :: "pychar \<Rightarrow> bool" where
  \<comment> \<open>the code points for which \<open>str.isspace\<close> holds; \<open>str.strip()\<close> removes exactly these\<close>
  "isspace c = (c \<in> {0x09, 0x0A, 0x0B, 0x0C, 0x0D, 0x1C, 0x1D, 0x1E, 0x1F, 0x20, 0x85, 0xA0,
       0x1680, 0x2000, 0x2001, 0x2002, 0x2003, 0x2004, 0x2005, 0x2006, 0x2007, 0x2008,
       0x2009, 0x200A, 0x2028, 0x2029, 0x202F, 0x205F, 0x3000})"

definition strip :: "pystr \<Rightarrow> pystr" where
  \<comment> \<open>\<open>s.strip()\<close>: whitespace removed at both ends\<close>
  "strip s = rev (dropWhile isspace (rev (dropWhile isspace s)))"

text \<open>
  Exceptions are values; the argument is what \<open>str(e)\<close> gives. The three
  \<open>openai.error\<close> classes are siblings, none a subclass of another. \<open>Exception\<close> stands
  for any other class derived from \<open>Exception\<close>. \<open>KeyboardInterrupt\<close> and \<open>SystemExit\<close>
  derive from \<open>BaseException\<close> only: a clause \<open>except Exception\<close> does not catch them.
  A value that may be Python's \<open>None\<close> is an \<open>option\<close>.
\<close>

datatype py_exn =
    AuthenticationError pystr
  | RateLimitError pystr
  | InvalidRequestError pystr
  | IndexError pystr
  | TypeError pystr
  | AttributeError pystr
  | UnicodeDecodeError pystr
  | Exception pystr
  | KeyboardInterrupt pystr
  | SystemExit pystr

fun str_exn :: "py_exn \<Rightarrow> pystr" where
  "str_exn (AuthenticationError m) = m"
| "str_exn (RateLimitError m) = m"
| "str_exn (InvalidRequestError m) = m"
| "str_exn (IndexError m) = m"
| "str_exn (TypeError m) = m"
| "str_exn (AttributeError m) = m"
| "str_exn (UnicodeDecodeError m) = m"
| "str_exn (Exception m) = m"
| "str_exn (KeyboardInterrupt m) = m"
| "str_exn (SystemExit m) = m"

fun is_Exception :: "py_exn \<Rightarrow> bool" where
  \<comment> \<open>\<open>isinstance(e, Exception)\<close>\<close>
  "is_Exception (KeyboardInterrupt m) = False"
| "is_Exception (SystemExit m) = False"
| "is_Exception e = True"

definition except_Exception :: "(py_exn \<Rightarrow> 'a) \<Rightarrow> py_exn \<Rightarrow> py_exn + 'a" where
  \<comment> \<open>\<open>except Exception as e: return handler(e)\<close>; any other exception goes on\<close>
  "except_Exception handler e = (if is_Exception e then Inr (handler e) else Inl e)"

section \<open>The completion request: \<open>generate_insights\<close>\<close>

text \<open>
  A message of the request is a dict with string keys and values, kept as the list of its
  items. The message of a choice of the response is an object; its \<open>content\<close> is a string
  or \<open>None\<close>.
\<close>

type_synonym py_dict = "(pystr \<times> pystr) list"

record 't chat_request =
  model :: pystr
  messages :: "py_dict list"
  max_tokens :: nat
  temperature :: 't

record chat_message =
  content :: "pystr option"

record choice =
  message :: chat_message

record response =
  choices :: "choice list"

text \<open>
  \<open>openai.ChatCompletion.create\<close> is the remote service: it reads the key stored in
  \<open>openai.api_key\<close> and the request, and returns a response or raises.
\<close>

type_synonym 't completion_service = "pystr \<Rightarrow> 't chat_request \<Rightarrow> py_exn + response"

definition max_chars :: nat where
  "max_chars = 12000"

definition truncation_marker :: pystr where
  "truncation_marker = py ''\<newline>\<newline>[Document truncated for processing...]''"

definition truncate_document :: "pystr \<Rightarrow> pystr" where
  \<comment> \<open>the rebinding of \<open>document_text\<close> under \<open>if len(document_text) > max_chars\<close>\<close>
  "truncate_document document_text =
     (if length document_text > max_chars
      then take max_chars document_text @ truncation_marker
      else document_text)"

definition prompt_head :: pystr where
  "prompt_head = py ''You are a helpful AI assistant that analyzes documents and provides clear, detailed insights.\<newline>\<newline>Read the following document carefully and answer this question: ''"

definition prompt_mid :: pystr where
  "prompt_mid = py ''\<newline>\<newline>Document:\<newline>''"

definition prompt_tail :: pystr where
  "prompt_tail = py ''\<newline>\<newline>Please provide a comprehensive answer based only on the information in the document. If the document doesn't contain enough information to answer the question, say so clearly.''"

definition prompt :: "pystr \<Rightarrow> pystr \<Rightarrow> pystr" where
  \<comment> \<open>the f-string, over the (already truncated) \<open>document_text\<close>\<close>
  "prompt document_text question =
     prompt_head @ question @ prompt_mid @ document_text @ prompt_tail"

definition system_content :: pystr where
  "system_content = py ''You are a helpful assistant that provides clear, detailed document analysis.''"

definition chat_request :: "pystr \<Rightarrow> pystr \<Rightarrow> 't \<Rightarrow> 't chat_request" where
  "chat_request model_name user_prompt temp =
     \<lparr>model = model_name,
      messages = [[(py ''role'', py ''system''), (py ''content'', system_content)],
                  [(py ''role'', py ''user''), (py ''content'', user_prompt)]],
      max_tokens = 1000,
      temperature = temp\<rparr>"

definition first_choice_content :: "response \<Rightarrow> py_exn + pystr option" where
  \<comment> \<open>\<open>response.choices[0].message.content\<close>, returned as it is; indexing an empty list
      raises\<close>
  "first_choice_content r =
     (case choices r of
        [] \<Rightarrow> Inl (IndexError (py ''list index out of range''))
      | c # _ \<Rightarrow> Inr (content (message c)))"

definition generate_insights_body ::
  "'t completion_service \<Rightarrow> pystr \<Rightarrow> pystr \<Rightarrow> pystr \<Rightarrow> pystr \<Rightarrow> 't
     \<Rightarrow> py_exn + pystr option" where
  \<comment> \<open>the \<open>try\<close> block\<close>
  "generate_insights_body create document_text question api_key model_name temp =
     (case create api_key
             (chat_request model_name (prompt (truncate_document document_text) question) temp) of
        Inl e \<Rightarrow> Inl e
      | Inr r \<Rightarrow> first_choice_content r)"

definition auth_message :: pystr where
  "auth_message = cross_mark @ py '' Invalid API key. Please check your OpenAI API key and try again.''"

definition rate_limit_message :: pystr where
  "rate_limit_message = cross_mark @ py '' Rate limit exceeded. Please check your API quota or try again later.''"

definition invalid_request_message :: "pystr \<Rightarrow> pystr" where
  "invalid_request_message detail = cross_mark @ py '' Invalid request: '' @ detail"

definition generic_message :: "pystr \<Rightarrow> pystr" where
  "generic_message detail = cross_mark @ py '' Error generating insights: '' @ detail"

fun generate_insights_except :: "py_exn \<Rightarrow> py_exn + pystr option" where
  \<comment> \<open>the four \<open>except\<close> clauses, in order\<close>
  "generate_insights_except (AuthenticationError m) = Inr (Some auth_message)"
| "generate_insights_except (RateLimitError m) = Inr (Some rate_limit_message)"
| "generate_insights_except (InvalidRequestError m) = Inr (Some (invalid_request_message m))"
| "generate_insights_except e = except_Exception (\<lambda>e. Some (generic_message (str_exn e))) e"

definition generate_insights ::
  "'t completion_service \<Rightarrow> pystr \<Rightarrow> pystr \<Rightarrow> pystr \<Rightarrow> pystr \<Rightarrow> 't
     \<Rightarrow> py_exn + pystr option" where
  \<comment> \<open>\<open>Inl\<close> is an exception leaving the function, \<open>Inr None\<close> the value \<open>None\<close>\<close>
  "generate_insights create document_text question api_key model_name temp =
     (case generate_insights_body create document_text question api_key model_name temp of
        Inr answer \<Rightarrow> Inr answer
      | Inl e \<Rightarrow> generate_insights_except e)"

definition echo_service :: "'t completion_service" where
  \<comment> \<open>a service that answers with the content of the last message it was sent, the user
      message\<close>
  "echo_service api_key req =
     Inr \<lparr>choices = [\<lparr>message = \<lparr>content = map_of (last (messages req)) (py ''content'')\<rparr>\<rparr>]\<rparr>"

section \<open>Text extraction\<close>

subsection \<open>Plain text: \<open>bytes.decode('utf-8', errors='ignore')\<close>\<close>

text \<open>
  The decoder follows CPython's: it reads one character at a time; where the bytes at the
  current position do not start a well-formed sequence it reports an error range (an
  invalid start byte: one byte; an invalid continuation: the bytes before it; a sequence
  cut off by the end of the input: the bytes that are left) to the error handler. The
  handler \<open>strict\<close> raises \<open>UnicodeDecodeError\<close>, \<open>ignore\<close> resumes after the range
  with nothing written, \<open>replace\<close> writes U+FFFD and resumes. \<open>utf8_step\<close> gives the
  character read (\<open>None\<close> for an error range) and the number of bytes passed over.
\<close>

datatype decode_errors = errors_strict | errors_ignore | errors_replace

definition is_cont :: "byte \<Rightarrow> bool" where
  "is_cont b = (0x80 \<le> b \<and> b < 0xC0)"

fun utf8_step :: "byte list \<Rightarrow> pychar option \<times> nat" where
  "utf8_step [] = (None, 0)"
| "utf8_step (ch # rest) =
    (if ch < 0x80 then (Some (unat ch), 1)
     else if ch < 0xC2 then (None, 1)
     else if ch < 0xE0 then
       (case rest of
          [] \<Rightarrow> (None, 1)
        | ch2 # _ \<Rightarrow>
            if \<not> is_cont ch2 then (None, 1)
            else (Some (push_bit 6 (unat (ch AND 0x1F)) OR unat (ch2 AND 0x3F)), 2))
     else if ch < 0xF0 then
       (case rest of
          [] \<Rightarrow> (None, 1)
        | ch2 # rest2 \<Rightarrow>
            if \<not> is_cont ch2 \<or> (if ch2 < 0xA0 then ch = 0xE0 else ch = 0xED) then (None, 1)
            else
              (case rest2 of
                 [] \<Rightarrow> (None, 2)
               | ch3 # _ \<Rightarrow>
                   if \<not> is_cont ch3 then (None, 2)
                   else (Some (push_bit 12 (unat (ch AND 0x0F))
                                 OR push_bit 6 (unat (ch2 AND 0x3F))
                                 OR unat (ch3 AND 0x3F)), 3)))
     else if ch < 0xF5 then
       (case rest of
          [] \<Rightarrow> (None, 1)
        | ch2 # rest2 \<Rightarrow>
            if \<not> is_cont ch2 \<or> (if ch2 < 0x90 then ch = 0xF0 else ch = 0xF4) then (None, 1)
            else
              (case rest2 of
                 [] \<Rightarrow> (None, 2)
               | ch3 # rest3 \<Rightarrow>
                   if \<not> is_cont ch3 then (None, 2)
                   else
                     (case rest3 of
                        [] \<Rightarrow> (None, 3)
                      | ch4 # _ \<Rightarrow>
                          if \<not> is_cont ch4 then (None, 3)
                          else (Some (push_bit 18 (unat (ch AND 0x07))
                                        OR push_bit 12 (unat (ch2 AND 0x3F))
                                        OR push_bit 6 (unat (ch3 AND 0x3F))
                                        OR unat (ch4 AND 0x3F)), 4))))
     else (None, 1))"

lemma utf8_step_consumes: "s \<noteq> [] \<Longrightarrow> 0 < snd (utf8_step s)"
  by (cases s) (auto split: list.splits)

lemma utf8_step_drop:
  assumes "s \<noteq> []" and "(c, n) = utf8_step s"
  shows "length s - n < length s"
proof -
  have "0 < n" using utf8_step_consumes [OF assms(1)] assms(2) by (metis snd_conv)
  with assms(1) show ?thesis by simp
qed

function utf8_decode :: "decode_errors \<Rightarrow> byte list \<Rightarrow> py_exn + pystr" where
  \<comment> \<open>\<open>s.decode('utf-8', errors=...)\<close>; the message of the exception, which names the byte
      and its position, is abbreviated\<close>
  "utf8_decode errors s =
     (if s = [] then Inr []
      else (case utf8_step s of
              (Some c, n) \<Rightarrow>
                (case utf8_decode errors (drop n s) of
                   Inl e \<Rightarrow> Inl e
                 | Inr text \<Rightarrow> Inr (c # text))
            | (None, n) \<Rightarrow>
                (case errors of
                   errors_strict \<Rightarrow>
                     Inl (UnicodeDecodeError (py ''utf-8 codec cannot decode bytes''))
                 | errors_ignore \<Rightarrow> utf8_decode errors (drop n s)
                 | errors_replace \<Rightarrow>
                     (case utf8_decode errors (drop n s) of
                        Inl e \<Rightarrow> Inl e
                      | Inr text \<Rightarrow> Inr (0xFFFD # text)))))"
  by pat_completeness auto
termination
  by (relation "measure (\<lambda>(errors, s). length s)") (auto intro: utf8_step_drop)

declare utf8_decode.simps [simp del]

definition extract_text_from_txt :: "byte list \<Rightarrow> py_exn + pystr" where
  "extract_text_from_txt file_bytes =
     (case (case utf8_decode errors_ignore file_bytes of
              Inl e \<Rightarrow> Inl e
            | Inr text \<Rightarrow> Inr (strip text)) of
        Inr r \<Rightarrow> Inr r
      | Inl e \<Rightarrow> except_Exception (\<lambda>e. py ''Error extracting TXT: '' @ str_exn e) e)"

subsection \<open>PDF and DOCX\<close>

text \<open>
  The parsing libraries are outside the program. A page of a PDF is what its
  \<open>extract_text()\<close> does: it returns the page's text or raises. \<open>PdfReader\<close> gives the
  pages of a file, or raises; \<open>DocxDocument\<close> gives the texts of the paragraphs, or raises.
  The two flags say whether the imports at the top of the script succeeded.
\<close>

type_synonym pdf_page = "py_exn + pystr"

record parsers =
  PDF_AVAILABLE :: bool
  PdfReader :: "byte list \<Rightarrow> py_exn + pdf_page list"
  DOCX_AVAILABLE :: bool
  DocxDocument :: "byte list \<Rightarrow> py_exn + pystr list"

fun join :: "pystr \<Rightarrow> pystr list \<Rightarrow> pystr" where
  "join sep [] = []"
| "join sep [x] = x"
| "join sep (x # y # ys) = x @ sep @ join sep (y # ys)"

fun read_pages :: "pdf_page list \<Rightarrow> pystr \<Rightarrow> py_exn + pystr" where
  \<comment> \<open>the \<open>for page in pdf_reader.pages\<close> loop, \<open>text\<close> its accumulator\<close>
  "read_pages [] text = Inr text"
| "read_pages (page # pages) text =
     (case page of
        Inl e \<Rightarrow> Inl e
      | Inr t \<Rightarrow> read_pages pages (text @ t @ py ''\<newline>''))"

definition pdf_unavailable :: pystr where
  "pdf_unavailable = py ''PDF support not available. Please install PyPDF2.''"

definition docx_unavailable :: pystr where
  "docx_unavailable = py ''DOCX support not available. Please install python-docx.''"

definition extract_text_from_pdf :: "parsers \<Rightarrow> byte list \<Rightarrow> py_exn + pystr" where
  "extract_text_from_pdf env file_bytes =
     (case (if \<not> PDF_AVAILABLE env then Inr pdf_unavailable
            else (case PdfReader env file_bytes of
                    Inl e \<Rightarrow> Inl e
                  | Inr pages \<Rightarrow>
                      (case read_pages pages [] of
                         Inl e \<Rightarrow> Inl e
                       | Inr text \<Rightarrow> Inr (strip text)))) of
        Inr r \<Rightarrow> Inr r
      | Inl e \<Rightarrow> except_Exception (\<lambda>e. py ''Error extracting PDF: '' @ str_exn e) e)"

definition extract_text_from_docx :: "parsers \<Rightarrow> byte list \<Rightarrow> py_exn + pystr" where
  "extract_text_from_docx env file_bytes =
     (case (if \<not> DOCX_AVAILABLE env then Inr docx_unavailable
            else (case DocxDocument env file_bytes of
                    Inl e \<Rightarrow> Inl e
                  | Inr paragraphs \<Rightarrow> Inr (strip (join (py ''\<newline>'') paragraphs)))) of
        Inr r \<Rightarrow> Inr r
      | Inl e \<Rightarrow> except_Exception (\<lambda>e. py ''Error extracting DOCX: '' @ str_exn e) e)"

subsection \<open>Dispatch on the file type\<close>

record uploaded_file =
  name :: pystr
  type :: pystr
  read :: "byte list"

definition unsupported_message :: pystr where
  "unsupported_message = py ''Unsupported file format. Please upload PDF, DOCX, or TXT files.''"

definition extract_text :: "parsers \<Rightarrow> uploaded_file \<Rightarrow> py_exn + pystr" where
  "extract_text env uploaded_file =
     (let file_bytes = read uploaded_file;
          file_type = type uploaded_file
      in if file_type = py ''application/pdf'' \<or> endswith (name uploaded_file) (py ''.pdf'')
         then extract_text_from_pdf env file_bytes
         else if file_type = py ''application/vnd.openxmlformats-officedocument.wordprocessingml.document''
                 \<or> endswith (name uploaded_file) (py ''.docx'')
         then extract_text_from_docx env file_bytes
         else if file_type = py ''text/plain'' \<or> endswith (name uploaded_file) (py ''.txt'')
         then extract_text_from_txt file_bytes
         else Inr unsupported_message)"

section \<open>The page script\<close>

text \<open>
  \<open>st.session_state\<close>. The script initialises \<open>document_text\<close>, \<open>insights\<close> and
  \<open>filename\<close> to \<open>None\<close>; \<open>question\<close> is not initialised, and reading it before it was
  assigned raises \<open>AttributeError\<close> (\<open>None\<close> below stands for the missing attribute; the
  wording of that exception is the framework's and is abbreviated here).
\<close>

record session_state =
  ss_document_text :: "pystr option"
  ss_insights :: "pystr option"
  ss_filename :: "pystr option"
  ss_question :: "pystr option"

datatype ui_output =
    st_success pystr
  | st_error pystr
  | st_expander pystr pystr

function str_of_nat :: "nat \<Rightarrow> pystr" where
  \<comment> \<open>how an f-string renders a non-negative \<open>int\<close>\<close>
  "str_of_nat n = (if n < 10 then [48 + n] else str_of_nat (n div 10) @ [48 + n mod 10])"
  by pat_completeness auto
termination
proof (relation "measure id")
  show "wf (measure id)" by simp
next
  fix n :: nat
  assume "\<not> n < 10"
  then have "n div 10 < n" by simp
  then show "(n div 10, n) \<in> measure id" by simp
qed

declare str_of_nat.simps [simp del]

definition extraction_succeeded :: "pystr \<Rightarrow> bool" where
  \<comment> \<open>the condition of the \<open>if\<close> after the extraction\<close>
  "extraction_succeeded document_text =
     (document_text \<noteq> [] \<and> \<not> startswith document_text (py ''Error'')
        \<and> \<not> startswith document_text (py ''Unsupported''))"

definition extract_button ::
  "parsers \<Rightarrow> session_state \<Rightarrow> uploaded_file \<Rightarrow> py_exn + session_state \<times> ui_output list" where
  \<comment> \<open>the body of \<open>if st.button(... Extract Text from Document)\<close>: the new session state
      and what is shown\<close>
  "extract_button env st uploaded_file =
     (case extract_text env uploaded_file of
        Inl e \<Rightarrow> Inl e
      | Inr document_text \<Rightarrow>
          (let st' = st\<lparr>ss_document_text := Some document_text\<rparr>
           in if extraction_succeeded document_text
              then Inr (st',
                     [st_success (check_mark @ py '' Text extracted successfully! (''
                                    @ str_of_nat (length document_text) @ py '' characters)''),
                      st_expander ([0x1F4C4] @ py '' Preview Extracted Text (first 1000 characters)'')
                        (take 1000 document_text
                           @ (if length document_text > 1000 then py ''...'' else []))])
              else Inr (st', [st_error document_text])))"

text \<open>
  An f-string renders \<open>None\<close> as the word \<open>None\<close>. \<open>generated\<close> is the value of
  \<open>datetime.now().strftime('%Y-%m-%d %H:%M:%S')\<close> when the report is built.
\<close>

definition fstr :: "pystr option \<Rightarrow> pystr" where
  "fstr v = (case v of None \<Rightarrow> py ''None'' | Some s \<Rightarrow> s)"

definition rule80 :: pystr where
  \<comment> \<open>\<open>'='*80\<close>\<close>
  "rule80 = replicate 80 (of_char CHR ''='')"

definition question_missing :: py_exn where
  "question_missing = AttributeError (py ''st.session_state has no attribute question'')"

definition not_subscriptable :: py_exn where
  \<comment> \<open>\<open>None[:2000]\<close>\<close>
  "not_subscriptable =
     TypeError ([0x27] @ py ''NoneType'' @ [0x27] @ py '' object is not subscriptable'')"

definition result_text :: "session_state \<Rightarrow> pystr \<Rightarrow> py_exn + pystr" where
  "result_text st generated =
     (case ss_question st of
        None \<Rightarrow> Inl question_missing
      | Some question \<Rightarrow>
          (case ss_document_text st of
             None \<Rightarrow> Inl not_subscriptable
           | Some document_text \<Rightarrow>
               Inr (py ''Document: '' @ fstr (ss_filename st) @ py ''\<newline>''
                  @ py ''Question: '' @ question @ py ''\<newline>''
                  @ py ''Generated: '' @ generated @ py ''\<newline>''
                  @ py ''\<newline>''
                  @ rule80 @ py ''\<newline>''
                  @ py ''\<newline>''
                  @ py ''INSIGHTS:\<newline>''
                  @ py ''\<newline>''
                  @ fstr (ss_insights st) @ py ''\<newline>''
                  @ py ''\<newline>''
                  @ rule80 @ py ''\<newline>''
                  @ py ''\<newline>''
                  @ py ''Document Text (excerpt):\<newline>''
                  @ take 2000 document_text @ py ''...\<newline>'')))"

definition markdown_text :: "session_state \<Rightarrow> pystr \<Rightarrow> py_exn + pystr" where
  "markdown_text st generated =
     (case ss_question st of
        None \<Rightarrow> Inl question_missing
      | Some question \<Rightarrow>
          Inr (py ''# Document Insights\<newline>''
             @ py ''\<newline>''
             @ py ''**Document:** '' @ fstr (ss_filename st) @ py ''  \<newline>''
             @ py ''**Question:** '' @ question @ py ''  \<newline>''
             @ py ''**Generated:** '' @ generated @ py ''\<newline>''
             @ py ''\<newline>''
             @ py ''---\<newline>''
             @ py ''\<newline>''
             @ py ''## Insights\<newline>''
             @ py ''\<newline>''
             @ fstr (ss_insights st) @ py ''\<newline>''
             @ py ''\<newline>''
             @ py ''---\<newline>''
             @ py ''\<newline>''
             @ py ''*Generated by Document Insights Generator*\<newline>''))"

text \<open>An environment where both libraries are installed and reject every file.\<close>

definition failing_parsers :: parsers where
  "failing_parsers =
     \<lparr>PDF_AVAILABLE = True, PdfReader = (\<lambda>b. Inl (Exception (py ''EOF marker not found''))),
      DOCX_AVAILABLE = True, DocxDocument = (\<lambda>b. Inl (Exception (py ''File is not a zip file'')))\<rparr>"

text \<open>An environment where neither library is installed.\<close>

definition no_parsers :: parsers where
  "no_parsers =
     \<lparr>PDF_AVAILABLE = False, PdfReader = (\<lambda>b. Inl (Exception (py ''name PdfReader is not defined''))),
      DOCX_AVAILABLE = False, DocxDocument = (\<lambda>b. Inl (Exception (py ''name DocxDocument is not defined'')))\<rparr>"

text \<open>A session after one question was answered.\<close>

definition example_session :: session_state where
  "example_session =
     \<lparr>ss_document_text = Some (py ''Quarterly results were strong.''),
      ss_insights = Some (py ''The conclusion is X.''),
      ss_filename = Some (py ''notes.txt''),
      ss_question = Some (py ''What is the conclusion?'')\<rparr>"




section \<open>Properties of the prompt\<close>

lemma length_prompt_head: "length prompt_head = 159"
  by (simp add: prompt_head_def py_def)

lemma length_prompt_mid: "length prompt_mid = 12"
  by (simp add: prompt_mid_def py_def)

lemma length_prompt_tail: "length prompt_tail = 177"
  by (simp add: prompt_tail_def py_def)

lemma length_truncation_marker: "length truncation_marker = 40"
  by (simp add: truncation_marker_def py_def)

text \<open>
  What the service is sent: with the service that answers with the user message it
  received, \<open>generate_insights\<close> returns the prompt it assembled.
\<close>

lemma generate_insights_echo:
  "generate_insights echo_service document_text question api_key model_name temp =
     Inr (Some (prompt (truncate_document document_text) question))"
proof -
  have "py ''role'' \<noteq> py ''content''" by (simp add: py_def)
  then show ?thesis
    by (simp add: generate_insights_def generate_insights_body_def echo_service_def
        chat_request_def first_choice_content_def)
qed

lemma prompt_truncated:
  "12000 < length document_text \<Longrightarrow>
     prompt (truncate_document document_text) question =
       prompt_head @ question @ prompt_mid @ take 12000 document_text
         @ truncation_marker @ prompt_tail"
  by (simp add: prompt_def truncate_document_def max_chars_def)

lemma prompt_untruncated:
  "length document_text \<le> 12000 \<Longrightarrow>
     prompt (truncate_document document_text) question =
       prompt_head @ question @ prompt_mid @ document_text @ prompt_tail"
  by (simp add: prompt_def truncate_document_def max_chars_def)

text \<open>
  C1. For a document text of more than 12,000 characters the prompt is the template
  around the question and the first 12,000 characters of the text followed by the
  truncation marker; this is what the service receives. Its length is 12,000 plus the
  length of the marker (40) plus the template (348 characters) and the question. Nothing
  else of the document is in it: two texts with the same first 12,000 characters give the
  same prompt.
\<close>

theorem truncated_prompt:
  "12000 < length document_text \<Longrightarrow>
     prompt (truncate_document document_text) question =
       prompt_head @ question @ prompt_mid @ take 12000 document_text
         @ truncation_marker @ prompt_tail
     \<and> generate_insights echo_service document_text question api_key model_name temp =
       Inr (Some (prompt_head @ question @ prompt_mid @ take 12000 document_text
                    @ truncation_marker @ prompt_tail))
     \<and> length (prompt (truncate_document document_text) question) =
       12000 + length truncation_marker
         + (length prompt_head + length question + length prompt_mid + length prompt_tail)
     \<and> length (prompt (truncate_document document_text) question) = 12388 + length question
     \<and> (\<forall>other. 12000 < length other \<and> take 12000 other = take 12000 document_text \<longrightarrow>
           prompt (truncate_document other) question =
             prompt (truncate_document document_text) question)"
  by (simp add: generate_insights_echo prompt_truncated length_prompt_head length_prompt_mid
      length_prompt_tail length_truncation_marker)

theorem truncated_prompt_witness:
  "12000 < length (replicate 12001 (120::nat))
   \<and> generate_insights echo_service (replicate 12001 120) (py ''Why?'') (py ''sk-1'')
         (py ''gpt-4'') (0.3::real) =
       Inr (Some (prompt_head @ py ''Why?'' @ prompt_mid @ replicate 12000 120
                    @ truncation_marker @ prompt_tail))
   \<and> length (prompt (truncate_document (replicate 12001 120)) (py ''Why?'')) = 12392"
  using truncated_prompt [of "replicate 12001 120" "py ''Why?''" "py ''sk-1''" "py ''gpt-4''"
      "0.3::real"]
  by (simp add: py_def)

lemma bracket_in_marker: "91 \<in> set truncation_marker"
  by (simp add: truncation_marker_def py_def)

lemma no_bracket_in_template:
  "91 \<notin> set prompt_head" "91 \<notin> set prompt_mid" "91 \<notin> set prompt_tail"
  by (simp_all add: prompt_head_def prompt_mid_def prompt_tail_def py_def)

lemma marker_needs_bracket:
  assumes "sublist truncation_marker s"
  shows "91 \<in> set s"
  using set_mono_sublist [OF assms] bracket_in_marker by blast

text \<open>
  C2, as stated: for every document text of at most 12,000 characters the prompt contains
  the text and does not contain the truncation marker. The text is embedded as it is, so
  a text that holds the marker's characters brings them into the prompt.
\<close>

theorem untruncated_prompt_counterexample:
  "length (py ''x'' @ truncation_marker) \<le> 12000
   \<and> sublist truncation_marker
        (prompt (truncate_document (py ''x'' @ truncation_marker)) (py ''Why?''))"
proof -
  have len: "length (py ''x'' @ truncation_marker) \<le> 12000"
    by (simp add: length_truncation_marker py_def)
  have "prompt (truncate_document (py ''x'' @ truncation_marker)) (py ''Why?'') =
      (prompt_head @ py ''Why?'' @ prompt_mid @ py ''x'') @ truncation_marker @ prompt_tail"
    by (simp add: prompt_untruncated [OF len])
  then have "sublist truncation_marker
      (prompt (truncate_document (py ''x'' @ truncation_marker)) (py ''Why?''))"
    by (simp only: sublist_appendI)
  with len show ?thesis by simp
qed

text \<open>
  C2, amended. For a document text of at most 12,000 characters (12,000 included) the
  prompt is the template around the question and the unchanged text, nothing appended,
  and this is what the service receives; the prompt contains the text, and it does not
  contain the truncation marker when neither the text nor the question contains the
  character \<open>[\<close> (code point 91).
\<close>

theorem untruncated_prompt:
  "length document_text \<le> 12000 \<Longrightarrow>
     prompt (truncate_document document_text) question =
       prompt_head @ question @ prompt_mid @ document_text @ prompt_tail
     \<and> generate_insights echo_service document_text question api_key model_name temp =
       Inr (Some (prompt_head @ question @ prompt_mid @ document_text @ prompt_tail))
     \<and> sublist document_text (prompt (truncate_document document_text) question)
     \<and> (91 \<notin> set document_text \<and> 91 \<notin> set question \<longrightarrow>
           \<not> sublist truncation_marker (prompt (truncate_document document_text) question))"
proof (intro conjI impI)
  assume le: "length document_text \<le> 12000"
  show eq: "prompt (truncate_document document_text) question =
       prompt_head @ question @ prompt_mid @ document_text @ prompt_tail"
    using le by (rule prompt_untruncated)
  show "generate_insights echo_service document_text question api_key model_name temp =
       Inr (Some (prompt_head @ question @ prompt_mid @ document_text @ prompt_tail))"
    by (simp add: generate_insights_echo eq)
  have "prompt (truncate_document document_text) question =
       (prompt_head @ question @ prompt_mid) @ document_text @ prompt_tail"
    by (simp add: eq)
  then show "sublist document_text (prompt (truncate_document document_text) question)"
    by (simp only: sublist_appendI)
  assume nb: "91 \<notin> set document_text \<and> 91 \<notin> set question"
  show "\<not> sublist truncation_marker (prompt (truncate_document document_text) question)"
  proof
    assume "sublist truncation_marker (prompt (truncate_document document_text) question)"
    then have "91 \<in> set (prompt (truncate_document document_text) question)"
      by (rule marker_needs_bracket)
    with nb show False by (simp add: eq no_bracket_in_template)
  qed
qed

theorem untruncated_prompt_witness:
  "length (replicate 12000 (120::nat)) \<le> 12000
   \<and> generate_insights echo_service (replicate 12000 120) (py ''Why?'') (py ''sk-1'')
         (py ''gpt-4'') (0.3::real) =
       Inr (Some (prompt_head @ py ''Why?'' @ prompt_mid @ replicate 12000 120 @ prompt_tail))
   \<and> \<not> sublist truncation_marker (prompt (truncate_document (replicate 12000 120)) (py ''Why?''))"
proof -
  have len: "length (replicate 12000 (120::nat)) \<le> 12000" by simp
  have nb: "91 \<notin> set (replicate 12000 (120::nat)) \<and> 91 \<notin> set (py ''Why?'')"
    by (simp add: py_def)
  from untruncated_prompt [OF len, of "py ''Why?''" "py ''sk-1''" "py ''gpt-4''" "0.3::real"]
    nb len show ?thesis by blast
qed

section \<open>Failures of the completion service\<close>

lemma messages_distinct:
  "auth_message \<noteq> rate_limit_message"
  "auth_message \<noteq> invalid_request_message d"
  "auth_message \<noteq> generic_message d"
  "rate_limit_message \<noteq> invalid_request_message d"
  "rate_limit_message \<noteq> generic_message d"
  "invalid_request_message d \<noteq> generic_message d'"
  by (simp_all add: auth_message_def rate_limit_message_def invalid_request_message_def
      generic_message_def py_def)

lemma generate_insights_raise:
  "create api_key
      (chat_request model_name (prompt (truncate_document document_text) question) temp) = Inl e
   \<Longrightarrow> generate_insights create document_text question api_key model_name temp =
         generate_insights_except e"
  by (simp add: generate_insights_def generate_insights_body_def)

text \<open>
  C4, as stated: on every path \<open>generate_insights\<close> returns a string and no exception
  leaves it. The last clause is \<open>except Exception\<close>, so a \<open>KeyboardInterrupt\<close> raised
  during the call of the service leaves the function; and the content of the first choice
  is returned as it is, so a content that is \<open>None\<close> is returned as \<open>None\<close>.
\<close>

theorem generate_insights_returns_counterexample:
  "generate_insights (\<lambda>k r. Inl (KeyboardInterrupt [])) (py ''doc'') (py ''Why?'')
      (py ''sk-1'') (py ''gpt-4'') (0.3::real) = Inl (KeyboardInterrupt [])
   \<and> generate_insights (\<lambda>k r. Inr \<lparr>choices = [\<lparr>message = \<lparr>content = None\<rparr>\<rparr>]\<rparr>) (py ''doc'')
      (py ''Why?'') (py ''sk-1'') (py ''gpt-4'') (0.3::real) = Inr None"
  by (simp add: generate_insights_def generate_insights_body_def first_choice_content_def
      except_Exception_def)

text \<open>
  C4, amended. When every exception the service raises derives from \<open>Exception\<close>
  (an authentication, rate limit or invalid request error, or any other) and the content
  of the first choice of a response is a string, \<open>generate_insights\<close> returns a string
  and raises nothing; this includes the response with no choice. The string is the
  content of the first choice or one of the four failure messages. An exception that
  does not derive from \<open>Exception\<close> leaves the function, and a content that is \<open>None\<close>
  is returned as \<open>None\<close>.
\<close>

theorem generate_insights_returns:
  "(\<forall>e. create api_key
          (chat_request model_name (prompt (truncate_document document_text) question) temp)
            = Inl e \<longrightarrow> is_Exception e) \<Longrightarrow>
   (\<forall>c cs. create api_key
          (chat_request model_name (prompt (truncate_document document_text) question) temp)
            = Inr \<lparr>choices = c # cs\<rparr> \<longrightarrow> content (message c) \<noteq> None) \<Longrightarrow>
   (\<exists>answer. generate_insights create document_text question api_key model_name temp
        = Inr (Some answer)
     \<and> (answer = auth_message \<or> answer = rate_limit_message
          \<or> (\<exists>detail. answer = invalid_request_message detail)
          \<or> (\<exists>detail. answer = generic_message detail)
          \<or> (\<exists>c cs. create api_key
                 (chat_request model_name (prompt (truncate_document document_text) question) temp)
                   = Inr \<lparr>choices = c # cs\<rparr> \<and> Some answer = content (message c))))
   \<and> (\<forall>other e. other api_key
          (chat_request model_name (prompt (truncate_document document_text) question) temp)
            = Inl e \<and> \<not> is_Exception e \<longrightarrow>
        generate_insights other document_text question api_key model_name temp = Inl e)
   \<and> (\<forall>other c cs. other api_key
          (chat_request model_name (prompt (truncate_document document_text) question) temp)
            = Inr \<lparr>choices = c # cs\<rparr> \<and> content (message c) = None \<longrightarrow>
        generate_insights other document_text question api_key model_name temp = Inr None)"
proof (intro conjI allI impI)
  assume exn: "\<forall>e. create api_key
          (chat_request model_name (prompt (truncate_document document_text) question) temp)
            = Inl e \<longrightarrow> is_Exception e"
    and str: "\<forall>c cs. create api_key
          (chat_request model_name (prompt (truncate_document document_text) question) temp)
            = Inr \<lparr>choices = c # cs\<rparr> \<longrightarrow> content (message c) \<noteq> None"
  show "\<exists>answer. generate_insights create document_text question api_key model_name temp
        = Inr (Some answer)
     \<and> (answer = auth_message \<or> answer = rate_limit_message
          \<or> (\<exists>detail. answer = invalid_request_message detail)
          \<or> (\<exists>detail. answer = generic_message detail)
          \<or> (\<exists>c cs. create api_key
                 (chat_request model_name (prompt (truncate_document document_text) question) temp)
                   = Inr \<lparr>choices = c # cs\<rparr> \<and> Some answer = content (message c)))"
  proof (cases "create api_key
      (chat_request model_name (prompt (truncate_document document_text) question) temp)")
    case (Inl e)
    with exn have "is_Exception e" by simp
    with Inl show ?thesis
      by (cases e)
        (auto simp: generate_insights_def generate_insights_body_def except_Exception_def)
  next
    case (Inr r)
    show ?thesis
    proof (cases "choices r")
      case Nil
      with Inr show ?thesis
        by (auto simp: generate_insights_def generate_insights_body_def
            first_choice_content_def except_Exception_def)
    next
      case (Cons c cs)
      then have r: "r = \<lparr>choices = c # cs\<rparr>" by (cases r) simp
      with Inr str obtain answer where "content (message c) = Some answer" by auto
      with Inr Cons r show ?thesis
        by (auto simp: generate_insights_def generate_insights_body_def
            first_choice_content_def)
    qed
  qed
next
  fix other :: "'a completion_service" and e
  assume "other api_key
          (chat_request model_name (prompt (truncate_document document_text) question) temp)
            = Inl e \<and> \<not> is_Exception e"
  then show "generate_insights other document_text question api_key model_name temp = Inl e"
    by (cases e)
      (simp_all add: generate_insights_def generate_insights_body_def except_Exception_def)
next
  fix other :: "'a completion_service" and c cs
  assume "other api_key
          (chat_request model_name (prompt (truncate_document document_text) question) temp)
            = Inr \<lparr>choices = c # cs\<rparr> \<and> content (message c) = None"
  then show "generate_insights other document_text question api_key model_name temp = Inr None"
    by (simp add: generate_insights_def generate_insights_body_def first_choice_content_def)
qed

theorem generate_insights_returns_witness:
  "generate_insights (\<lambda>k r. Inl (Exception (py ''timed out''))) (py ''doc'') (py ''Why?'')
      (py ''sk-1'') (py ''gpt-4'') (0.3::real) = Inr (Some (generic_message (py ''timed out'')))
   \<and> generate_insights (\<lambda>k r. Inr \<lparr>choices = []\<rparr>) (py ''doc'') (py ''Why?'')
      (py ''sk-1'') (py ''gpt-4'') (0.3::real)
        = Inr (Some (generic_message (py ''list index out of range'')))
   \<and> generate_insights (\<lambda>k r. Inl (SystemExit [])) (py ''doc'') (py ''Why?'')
      (py ''sk-1'') (py ''gpt-4'') (0.3::real) = Inl (SystemExit [])"
proof -
  have "\<exists>answer. generate_insights (\<lambda>k r. Inl (Exception (py ''timed out''))) (py ''doc'')
      (py ''Why?'') (py ''sk-1'') (py ''gpt-4'') (0.3::real) = Inr (Some answer)"
    and esc: "generate_insights (\<lambda>k r. Inl (SystemExit [])) (py ''doc'') (py ''Why?'')
      (py ''sk-1'') (py ''gpt-4'') (0.3::real) = Inl (SystemExit [])"
    using generate_insights_returns [of "\<lambda>k r. Inl (Exception (py ''timed out''))" "py ''sk-1''"
        "py ''gpt-4''" "py ''doc''" "py ''Why?''" "0.3::real"]
    by auto
  then obtain a where a: "generate_insights (\<lambda>k r. Inl (Exception (py ''timed out''))) (py ''doc'')
      (py ''Why?'') (py ''sk-1'') (py ''gpt-4'') (0.3::real) = Inr (Some a)"
    by blast
  then have "a = generic_message (py ''timed out'')"
    by (simp add: generate_insights_def generate_insights_body_def except_Exception_def)
  moreover have "generate_insights (\<lambda>k r. Inr \<lparr>choices = []\<rparr>) (py ''doc'') (py ''Why?'')
      (py ''sk-1'') (py ''gpt-4'') (0.3::real)
        = Inr (Some (generic_message (py ''list index out of range'')))"
    by (simp add: generate_insights_def generate_insights_body_def first_choice_content_def
        except_Exception_def)
  ultimately show ?thesis using a esc by simp
qed

text \<open>
  C5. When the service raises an authentication failure, \<open>generate_insights\<close> returns the
  invalid API key message, which tells the user to check the key. With a service that
  raises a rate limit error, an invalid request error or any other exception it returns
  the three other messages, and the four messages are pairwise different whatever detail
  the last two carry.
\<close>

theorem authentication_failure_message:
  "create api_key
      (chat_request model_name (prompt (truncate_document document_text) question) temp)
        = Inl (AuthenticationError detail) \<Longrightarrow>
   generate_insights create document_text question api_key model_name temp
     = Inr (Some auth_message)
   \<and> auth_message =
       cross_mark @ py '' Invalid API key. Please check your OpenAI API key and try again.''
   \<and> sublist (py ''check your OpenAI API key'') auth_message
   \<and> auth_message \<noteq> generic_message d \<and> auth_message \<noteq> rate_limit_message
   \<and> auth_message \<noteq> invalid_request_message d
   \<and> (\<forall>other. other api_key
          (chat_request model_name (prompt (truncate_document document_text) question) temp)
            = Inl (RateLimitError detail) \<longrightarrow>
        generate_insights other document_text question api_key model_name temp
          = Inr (Some rate_limit_message))
   \<and> (\<forall>other. other api_key
          (chat_request model_name (prompt (truncate_document document_text) question) temp)
            = Inl (InvalidRequestError detail) \<longrightarrow>
        generate_insights other document_text question api_key model_name temp
          = Inr (Some (invalid_request_message detail)))
   \<and> (\<forall>other e. other api_key
          (chat_request model_name (prompt (truncate_document document_text) question) temp)
            = Inl e \<and> e \<in> {IndexError detail, TypeError detail, AttributeError detail,
                               Exception detail} \<longrightarrow>
        generate_insights other document_text question api_key model_name temp
          = Inr (Some (generic_message detail)))
   \<and> rate_limit_message \<noteq> invalid_request_message d
   \<and> rate_limit_message \<noteq> generic_message d
   \<and> invalid_request_message d \<noteq> generic_message d'"
proof -
  assume raised: "create api_key
      (chat_request model_name (prompt (truncate_document document_text) question) temp)
        = Inl (AuthenticationError detail)"
  have "auth_message = (cross_mark @ py '' Invalid API key. Please '')
      @ py ''check your OpenAI API key'' @ py '' and try again.''"
    by (simp add: auth_message_def py_def)
  then have key: "sublist (py ''check your OpenAI API key'') auth_message"
    by (metis sublist_appendI)
  have auth: "generate_insights create document_text question api_key model_name temp
      = Inr (Some auth_message)"
    using generate_insights_raise [of create api_key model_name document_text question temp
        "AuthenticationError detail"] raised
    by simp
  have others: "generate_insights other document_text question api_key model_name temp
      = generate_insights_except e"
    if "other api_key
          (chat_request model_name (prompt (truncate_document document_text) question) temp)
            = Inl e" for other e
    using that by (rule generate_insights_raise)
  have lit: "auth_message =
       cross_mark @ py '' Invalid API key. Please check your OpenAI API key and try again.''"
    by (simp add: auth_message_def)
  show ?thesis
    by (intro conjI allI impI, rule auth, rule lit, rule key)
      (auto simp: messages_distinct others except_Exception_def)
qed

theorem authentication_failure_message_witness:
  "generate_insights (\<lambda>k r. Inl (AuthenticationError (py ''Incorrect API key provided'')))
      (py ''doc'') (py ''Why?'') (py ''sk-1'') (py ''gpt-4'') (0.3::real) = Inr (Some auth_message)
   \<and> auth_message \<noteq> generic_message (py ''Incorrect API key provided'')"
  using authentication_failure_message [of "\<lambda>k r. Inl (AuthenticationError (py ''Incorrect API key provided''))"
      "py ''sk-1''" "py ''gpt-4''" "py ''doc''" "py ''Why?''" "0.3::real"
      "py ''Incorrect API key provided''" "py ''Incorrect API key provided''"]
  by simp

section \<open>Extraction\<close>

lemma strip_snoc_space: "isspace c \<Longrightarrow> strip (s @ [c]) = strip s"
proof (cases "\<forall>x\<in>set s. isspace x")
  case True
  assume c: "isspace c"
  from True have a: "dropWhile isspace s = []" by simp
  from True c have b: "dropWhile isspace (s @ [c]) = []" by simp
  show ?thesis unfolding strip_def by (simp only: a b)
next
  case False
  assume c: "isspace c"
  from False obtain x where "x \<in> set s" and "\<not> isspace x" by blast
  then have "dropWhile isspace (s @ [c]) = dropWhile isspace s @ [c]"
    by (rule dropWhile_append1)
  with c show ?thesis by (simp add: strip_def)
qed

lemma read_pages_texts:
  "read_pages (map Inr ts) acc = Inr (acc @ concat (map (\<lambda>t. t @ py ''\<newline>'') ts))"
  by (induction ts arbitrary: acc) simp_all

lemma concat_terminated:
  "ts \<noteq> [] \<Longrightarrow> concat (map (\<lambda>t. t @ sep) ts) = join sep ts @ sep"
  by (induction sep ts rule: join.induct) simp_all

lemma isspace_newline: "isspace 10"
  by (simp add: isspace_def)

lemma strip_pages: "strip (concat (map (\<lambda>t. t @ py ''\<newline>'') ts)) = strip (join (py ''\<newline>'') ts)"
proof (cases ts)
  case Nil
  then show ?thesis by simp
next
  case (Cons t ts')
  then have "concat (map (\<lambda>t. t @ py ''\<newline>'') ts) = join (py ''\<newline>'') ts @ [10]"
    using concat_terminated [of ts "py ''\<newline>''"] by (simp add: py_def)
  then show ?thesis by (simp add: strip_snoc_space isspace_newline)
qed

text \<open>
  C7. When the PDF library is installed and the file is read as pages whose texts are
  \<open>ts\<close>, each extracted without an exception, \<open>extract_text_from_pdf\<close> returns the texts
  joined by newlines in page order, stripped. (The loop ends every page with a newline;
  the one after the last page is removed by \<open>strip\<close>.)
\<close>

theorem pdf_pages_joined:
  "PDF_AVAILABLE env \<Longrightarrow> PdfReader env file_bytes = Inr (map Inr ts) \<Longrightarrow>
     extract_text_from_pdf env file_bytes = Inr (strip (join (py ''\<newline>'') ts))"
  by (simp add: extract_text_from_pdf_def read_pages_texts strip_pages)


theorem pdf_pages_joined_witness:
  "extract_text_from_pdf
      \<lparr>PDF_AVAILABLE = True,
       PdfReader = (\<lambda>b. Inr [Inr (py '' Page one.''), Inr (py ''Page two.''), Inr (py ''Page three. '')]),
       DOCX_AVAILABLE = False,
       DocxDocument = (\<lambda>b. Inl (Exception []))\<rparr> [0x25, 0x50, 0x44, 0x46]
     = Inr (py ''Page one.\<newline>Page two.\<newline>Page three.'')"
proof -
  have "strip (join (py ''\<newline>'') [py '' Page one.'', py ''Page two.'', py ''Page three. ''])
      = py ''Page one.\<newline>Page two.\<newline>Page three.''"
    by (simp add: strip_def py_def isspace_def)
  then show ?thesis
    using pdf_pages_joined [of "\<lparr>PDF_AVAILABLE = True,
       PdfReader = (\<lambda>b. Inr [Inr (py '' Page one.''), Inr (py ''Page two.''), Inr (py ''Page three. '')]),
       DOCX_AVAILABLE = False,
       DocxDocument = (\<lambda>b. Inl (Exception []))\<rparr>" "[0x25, 0x50, 0x44, 0x46]"
       "[py '' Page one.'', py ''Page two.'', py ''Page three. '']"]
    by simp
qed

lemma endswith_eval: "endswith s p = prefix (rev p) (rev s)"
  by (simp add: endswith_def suffix_to_prefix)

text \<open>
  C6. A file whose declared type is none of the three MIME types and whose name ends with
  none of \<open>.pdf\<close>, \<open>.docx\<close>, \<open>.txt\<close> gets the unsupported format message, which names
  PDF, DOCX and TXT. No parser takes part: the result is the same in every environment,
  whatever the parsing libraries would do with the bytes.
\<close>

theorem unsupported_format:
  "type f \<noteq> py ''application/pdf'' \<Longrightarrow>
   type f \<noteq> py ''application/vnd.openxmlformats-officedocument.wordprocessingml.document'' \<Longrightarrow>
   type f \<noteq> py ''text/plain'' \<Longrightarrow>
   \<not> endswith (name f) (py ''.pdf'') \<Longrightarrow>
   \<not> endswith (name f) (py ''.docx'') \<Longrightarrow>
   \<not> endswith (name f) (py ''.txt'') \<Longrightarrow>
     extract_text env f = Inr unsupported_message
     \<and> unsupported_message = py ''Unsupported file format. Please upload PDF, DOCX, or TXT files.''
     \<and> sublist (py ''PDF, DOCX, or TXT'') unsupported_message
     \<and> (\<forall>env'. extract_text env' f = extract_text env f)"
proof -
  have "unsupported_message = py ''Unsupported file format. Please upload ''
      @ py ''PDF, DOCX, or TXT'' @ py '' files.''"
    by (simp add: unsupported_message_def py_def)
  then have "sublist (py ''PDF, DOCX, or TXT'') unsupported_message"
    by (metis sublist_appendI)
  moreover assume "type f \<noteq> py ''application/pdf''"
    "type f \<noteq> py ''application/vnd.openxmlformats-officedocument.wordprocessingml.document''"
    "type f \<noteq> py ''text/plain''"
    "\<not> endswith (name f) (py ''.pdf'')"
    "\<not> endswith (name f) (py ''.docx'')"
    "\<not> endswith (name f) (py ''.txt'')"
  ultimately show ?thesis
    by (simp add: extract_text_def) (simp add: unsupported_message_def)
qed

theorem unsupported_format_witness:
  "extract_text failing_parsers \<lparr>name = py ''photo.png'', type = py ''image/png'', read = [0x89, 0x50, 0x4E, 0x47]\<rparr>
     = Inr (py ''Unsupported file format. Please upload PDF, DOCX, or TXT files.'')"
  using unsupported_format [of "\<lparr>name = py ''photo.png'', type = py ''image/png'', read = [0x89, 0x50, 0x4E, 0x47]\<rparr>"
      failing_parsers]
  by (simp add: endswith_eval py_def)

text \<open>
  C10. The dispatch tests PDF first, then DOCX, then plain text, and a file name's ending
  alone selects a branch. A name ending with \<open>.pdf\<close> goes to the PDF extractor
  whatever the declared type, so does the declared type \<open>application/pdf\<close> whatever the
  name; a file that also meets the DOCX test is therefore handled as PDF. The DOCX
  extractor handles the files that fail the PDF test and meet the DOCX test, the
  plain-text extractor those that fail both and meet its own test.
\<close>

theorem dispatch_order:
  "(endswith (name f) (py ''.pdf'') \<longrightarrow> extract_text env f = extract_text_from_pdf env (read f))
   \<and> (type f = py ''application/pdf'' \<longrightarrow> extract_text env f = extract_text_from_pdf env (read f))
   \<and> (\<not> (type f = py ''application/pdf'' \<or> endswith (name f) (py ''.pdf''))
        \<and> (type f = py ''application/vnd.openxmlformats-officedocument.wordprocessingml.document''
             \<or> endswith (name f) (py ''.docx''))
        \<longrightarrow> extract_text env f = extract_text_from_docx env (read f))
   \<and> (\<not> (type f = py ''application/pdf'' \<or> endswith (name f) (py ''.pdf''))
        \<and> \<not> (type f = py ''application/vnd.openxmlformats-officedocument.wordprocessingml.document''
             \<or> endswith (name f) (py ''.docx''))
        \<and> (type f = py ''text/plain'' \<or> endswith (name f) (py ''.txt''))
        \<longrightarrow> extract_text env f = extract_text_from_txt (read f))"
  by (simp add: extract_text_def)

theorem dispatch_order_witness:
  "extract_text failing_parsers
      \<lparr>name = py ''report.pdf'',
       type = py ''application/vnd.openxmlformats-officedocument.wordprocessingml.document'',
       read = [0x50, 0x4B]\<rparr>
     = Inr (py ''Error extracting PDF: EOF marker not found'')"
proof -
  have "endswith (py ''report.pdf'') (py ''.pdf'')"
    by (simp add: endswith_eval py_def)
  then have "extract_text failing_parsers
      \<lparr>name = py ''report.pdf'',
       type = py ''application/vnd.openxmlformats-officedocument.wordprocessingml.document'',
       read = [0x50, 0x4B]\<rparr> = extract_text_from_pdf failing_parsers [0x50, 0x4B]"
    using dispatch_order [of "\<lparr>name = py ''report.pdf'',
       type = py ''application/vnd.openxmlformats-officedocument.wordprocessingml.document'',
       read = [0x50, 0x4B]\<rparr>" failing_parsers]
    by simp
  then show ?thesis
    by (simp add: extract_text_from_pdf_def failing_parsers_def except_Exception_def py_def)
qed

section \<open>The extraction button\<close>

lemma extract_text_pdf_branch:
  "type f = py ''application/pdf'' \<or> endswith (name f) (py ''.pdf'') \<Longrightarrow>
     extract_text env f = extract_text_from_pdf env (read f)"
  by (auto simp: extract_text_def)

lemma extract_text_docx_branch:
  "\<not> (type f = py ''application/pdf'' \<or> endswith (name f) (py ''.pdf'')) \<Longrightarrow>
   type f = py ''application/vnd.openxmlformats-officedocument.wordprocessingml.document''
     \<or> endswith (name f) (py ''.docx'') \<Longrightarrow>
     extract_text env f = extract_text_from_docx env (read f)"
  by (auto simp: extract_text_def)

lemma unavailable_prefixes:
  "\<not> startswith pdf_unavailable (py ''Error'')"
  "\<not> startswith pdf_unavailable (py ''Unsupported'')"
  "\<not> startswith docx_unavailable (py ''Error'')"
  "\<not> startswith docx_unavailable (py ''Unsupported'')"
  "pdf_unavailable \<noteq> []" "docx_unavailable \<noteq> []"
  by (simp_all add: startswith_def pdf_unavailable_def docx_unavailable_def py_def)

lemma unavailable_succeeded:
  "extraction_succeeded pdf_unavailable" "extraction_succeeded docx_unavailable"
  by (simp_all add: extraction_succeeded_def unavailable_prefixes)

lemma length_unavailable:
  "length pdf_unavailable = 49" "length docx_unavailable = 55"
  by (simp_all add: pdf_unavailable_def docx_unavailable_def py_def)

lemma str_of_nat_lengths: "str_of_nat 49 = py ''49''" "str_of_nat 55 = py ''55''"
  by (simp_all add: str_of_nat.simps py_def)

lemma pdf_missing: "\<not> PDF_AVAILABLE env \<Longrightarrow> extract_text_from_pdf env b = Inr pdf_unavailable"
  by (simp add: extract_text_from_pdf_def)

lemma docx_missing: "\<not> DOCX_AVAILABLE env \<Longrightarrow> extract_text_from_docx env b = Inr docx_unavailable"
  by (simp add: extract_text_from_docx_def)

lemma extract_button_shown:
  "extract_text env f = Inr t \<Longrightarrow>
     \<exists>shown. extract_button env st f = Inr (st\<lparr>ss_document_text := Some t\<rparr>, shown)
       \<and> (shown \<noteq> [st_error t]) = extraction_succeeded t"
  by (simp add: extract_button_def Let_def)

text \<open>
  C9. After an extraction that returned \<open>t\<close> the text is stored in the session state
  in every case, and something other than the error box is shown exactly when \<open>t\<close> is
  not empty and starts with neither \<open>Error\<close> nor \<open>Unsupported\<close>. The two messages for
  a missing library start with neither word. So when the PDF (or DOCX) library is not
  installed and the file goes to that extractor, the message is stored as the document
  text and the success box and the preview are shown, not the error box.
\<close>

theorem unavailable_message_stored:
  "(extract_text env f = Inr t \<longrightarrow>
      (\<exists>shown. extract_button env st f = Inr (st\<lparr>ss_document_text := Some t\<rparr>, shown)
         \<and> (shown \<noteq> [st_error t]) =
             (t \<noteq> [] \<and> \<not> startswith t (py ''Error'') \<and> \<not> startswith t (py ''Unsupported''))))
   \<and> \<not> startswith pdf_unavailable (py ''Error'')
   \<and> \<not> startswith pdf_unavailable (py ''Unsupported'')
   \<and> \<not> startswith docx_unavailable (py ''Error'')
   \<and> \<not> startswith docx_unavailable (py ''Unsupported'')
   \<and> (\<not> PDF_AVAILABLE env
        \<and> (type f = py ''application/pdf'' \<or> endswith (name f) (py ''.pdf'')) \<longrightarrow>
        extract_button env st f =
          Inr (st\<lparr>ss_document_text := Some pdf_unavailable\<rparr>,
               [st_success (check_mark @ py '' Text extracted successfully! (49 characters)''),
                st_expander ([0x1F4C4] @ py '' Preview Extracted Text (first 1000 characters)'')
                  pdf_unavailable]))
   \<and> (\<not> DOCX_AVAILABLE env
        \<and> \<not> (type f = py ''application/pdf'' \<or> endswith (name f) (py ''.pdf''))
        \<and> (type f = py ''application/vnd.openxmlformats-officedocument.wordprocessingml.document''
             \<or> endswith (name f) (py ''.docx'')) \<longrightarrow>
        extract_button env st f =
          Inr (st\<lparr>ss_document_text := Some docx_unavailable\<rparr>,
               [st_success (check_mark @ py '' Text extracted successfully! (55 characters)''),
                st_expander ([0x1F4C4] @ py '' Preview Extracted Text (first 1000 characters)'')
                  docx_unavailable]))"
proof (intro conjI impI)
  assume "extract_text env f = Inr t"
  from extract_button_shown [OF this, of st]
  show "\<exists>shown. extract_button env st f = Inr (st\<lparr>ss_document_text := Some t\<rparr>, shown)
         \<and> (shown \<noteq> [st_error t]) =
             (t \<noteq> [] \<and> \<not> startswith t (py ''Error'') \<and> \<not> startswith t (py ''Unsupported''))"
    by (simp add: extraction_succeeded_def)
next
  assume "\<not> PDF_AVAILABLE env
        \<and> (type f = py ''application/pdf'' \<or> endswith (name f) (py ''.pdf''))"
  then have "extract_text env f = Inr pdf_unavailable"
    by (simp add: extract_text_pdf_branch pdf_missing)
  then show "extract_button env st f =
          Inr (st\<lparr>ss_document_text := Some pdf_unavailable\<rparr>,
               [st_success (check_mark @ py '' Text extracted successfully! (49 characters)''),
                st_expander ([0x1F4C4] @ py '' Preview Extracted Text (first 1000 characters)'')
                  pdf_unavailable])"
    by (simp add: extract_button_def unavailable_succeeded length_unavailable str_of_nat_lengths)
      (simp add: py_def)
next
  assume "\<not> DOCX_AVAILABLE env
        \<and> \<not> (type f = py ''application/pdf'' \<or> endswith (name f) (py ''.pdf''))
        \<and> (type f = py ''application/vnd.openxmlformats-officedocument.wordprocessingml.document''
             \<or> endswith (name f) (py ''.docx''))"
  then have "extract_text env f = Inr docx_unavailable"
    by (simp add: extract_text_docx_branch docx_missing)
  then show "extract_button env st f =
          Inr (st\<lparr>ss_document_text := Some docx_unavailable\<rparr>,
               [st_success (check_mark @ py '' Text extracted successfully! (55 characters)''),
                st_expander ([0x1F4C4] @ py '' Preview Extracted Text (first 1000 characters)'')
                  docx_unavailable])"
    by (simp add: extract_button_def unavailable_succeeded length_unavailable str_of_nat_lengths)
      (simp add: py_def)
qed (simp_all add: unavailable_prefixes)

theorem unavailable_message_stored_witness:
  "extract_button no_parsers
      \<lparr>ss_document_text = None, ss_insights = None, ss_filename = Some (py ''report.pdf''),
       ss_question = None\<rparr>
      \<lparr>name = py ''report.pdf'', type = py ''application/pdf'', read = [0x25, 0x50, 0x44, 0x46]\<rparr>
   = Inr (\<lparr>ss_document_text = Some (py ''PDF support not available. Please install PyPDF2.''),
           ss_insights = None, ss_filename = Some (py ''report.pdf''), ss_question = None\<rparr>,
          [st_success (check_mark @ py '' Text extracted successfully! (49 characters)''),
           st_expander ([0x1F4C4] @ py '' Preview Extracted Text (first 1000 characters)'')
             (py ''PDF support not available. Please install PyPDF2.'')])"
  using unavailable_message_stored [of no_parsers
      "\<lparr>name = py ''report.pdf'', type = py ''application/pdf'', read = [0x25, 0x50, 0x44, 0x46]\<rparr>"
      "[]"
      "\<lparr>ss_document_text = None, ss_insights = None, ss_filename = Some (py ''report.pdf''),
       ss_question = None\<rparr>"]
  by (simp add: no_parsers_def pdf_unavailable_def)

section \<open>Plain text\<close>

subsection \<open>The characters the decoder reads\<close>
























subsection \<open>Well-formed sequences\<close>






















subsection \<open>The decoder as a whole\<close>





lemma decode_bad_replace:
  "s \<noteq> [] \<Longrightarrow> utf8_step s = (None, n) \<Longrightarrow>
     utf8_decode errors_replace s =
       (case utf8_decode errors_replace (drop n s) of
          Inl e \<Rightarrow> Inl e | Inr decoded \<Rightarrow> Inr (0xFFFD # decoded))"
  by (subst utf8_decode.simps) simp






subsection \<open>Well-formed and ill-formed input\<close>

















subsection \<open>The extraction\<close>







section \<open>The exported reports\<close>

lemma sublist_in: "m = a @ x @ b \<Longrightarrow> sublist x m"
  by simp

lemma markdown_layout:
  "ss_question st = Some question \<Longrightarrow>
   markdown_text st generated =
     Inr (py ''# Document Insights\<newline>\<newline>**Document:** '' @ fstr (ss_filename st)
        @ py ''  \<newline>**Question:** '' @ question
        @ py ''  \<newline>**Generated:** '' @ generated
        @ py ''\<newline>\<newline>---\<newline>\<newline>## Insights\<newline>\<newline>''
        @ fstr (ss_insights st)
        @ py ''\<newline>\<newline>---\<newline>\<newline>*Generated by Document Insights Generator*\<newline>'')"
  by (simp add: markdown_text_def py_def)

lemma result_layout:
  "ss_question st = Some question \<Longrightarrow> ss_document_text st = Some document_text \<Longrightarrow>
   result_text st generated =
     Inr (py ''Document: '' @ fstr (ss_filename st)
        @ py ''\<newline>Question: '' @ question
        @ py ''\<newline>Generated: '' @ generated
        @ py ''\<newline>\<newline>'' @ rule80 @ py ''\<newline>\<newline>INSIGHTS:\<newline>\<newline>''
        @ fstr (ss_insights st)
        @ py ''\<newline>\<newline>'' @ rule80 @ py ''\<newline>\<newline>Document Text (excerpt):\<newline>''
        @ take 2000 document_text @ py ''...\<newline>'')"
  by (simp add: result_text_def py_def)

text \<open>
  C8, as stated: the markdown report holds the fields of the plain-text report, the
  excerpt of the document text among them. In the session below the document text does
  not occur in the markdown report.
\<close>

theorem markdown_excerpt_counterexample:
  "ss_document_text example_session = Some (py ''Quarterly results were strong.'')
   \<and> markdown_text example_session (py ''2024-01-02 03:04:05'') =
       Inr (py ''# Document Insights\<newline>\<newline>**Document:** notes.txt  \<newline>**Question:** What is the conclusion?  \<newline>**Generated:** 2024-01-02 03:04:05\<newline>\<newline>---\<newline>\<newline>## Insights\<newline>\<newline>The conclusion is X.\<newline>\<newline>---\<newline>\<newline>*Generated by Document Insights Generator*\<newline>'')
   \<and> \<not> sublist (take 2000 (py ''Quarterly results were strong.''))
         (py ''# Document Insights\<newline>\<newline>**Document:** notes.txt  \<newline>**Question:** What is the conclusion?  \<newline>**Generated:** 2024-01-02 03:04:05\<newline>\<newline>---\<newline>\<newline>## Insights\<newline>\<newline>The conclusion is X.\<newline>\<newline>---\<newline>\<newline>*Generated by Document Insights Generator*\<newline>'')"
proof -
  have "119 \<in> set (take 2000 (py ''Quarterly results were strong.''))"
    by (simp add: py_def)
  moreover have "119 \<notin> set (py ''# Document Insights\<newline>\<newline>**Document:** notes.txt  \<newline>**Question:** What is the conclusion?  \<newline>**Generated:** 2024-01-02 03:04:05\<newline>\<newline>---\<newline>\<newline>## Insights\<newline>\<newline>The conclusion is X.\<newline>\<newline>---\<newline>\<newline>*Generated by Document Insights Generator*\<newline>'')"
    by (simp add: py_def)
  ultimately have "\<not> sublist (take 2000 (py ''Quarterly results were strong.''))
         (py ''# Document Insights\<newline>\<newline>**Document:** notes.txt  \<newline>**Question:** What is the conclusion?  \<newline>**Generated:** 2024-01-02 03:04:05\<newline>\<newline>---\<newline>\<newline>## Insights\<newline>\<newline>The conclusion is X.\<newline>\<newline>---\<newline>\<newline>*Generated by Document Insights Generator*\<newline>'')"
    using set_mono_sublist by blast
  moreover have "markdown_text example_session (py ''2024-01-02 03:04:05'') =
       Inr (py ''# Document Insights\<newline>\<newline>**Document:** notes.txt  \<newline>**Question:** What is the conclusion?  \<newline>**Generated:** 2024-01-02 03:04:05\<newline>\<newline>---\<newline>\<newline>## Insights\<newline>\<newline>The conclusion is X.\<newline>\<newline>---\<newline>\<newline>*Generated by Document Insights Generator*\<newline>'')"
    by (simp add: markdown_text_def example_session_def fstr_def py_def)
  ultimately show ?thesis by (simp add: example_session_def)
qed

text \<open>
  C8, amended. The markdown report is a markdown document with the headers
  \<open># Document Insights\<close> and \<open>## Insights\<close> that holds the document name, the
  question, the generation timestamp and the full insight text. It holds no excerpt of
  the document text: it is the same whatever the document text is. The plain-text report
  holds the same four fields and the first 2000 characters of the document text.
\<close>

theorem markdown_report_fields:
  "ss_question st = Some question \<Longrightarrow>
   (\<exists>m. markdown_text st generated = Inr m
      \<and> prefix (py ''# Document Insights'') m
      \<and> sublist (py ''**Document:** '' @ fstr (ss_filename st)) m
      \<and> sublist (py ''**Question:** '' @ question) m
      \<and> sublist (py ''**Generated:** '' @ generated) m
      \<and> sublist (py ''## Insights\<newline>\<newline>'' @ fstr (ss_insights st)) m)
   \<and> markdown_text (st\<lparr>ss_document_text := d\<rparr>) generated = markdown_text st generated
   \<and> (ss_document_text st = Some document_text \<longrightarrow>
        (\<exists>r. result_text st generated = Inr r
           \<and> sublist (py ''Document: '' @ fstr (ss_filename st)) r
           \<and> sublist (py ''Question: '' @ question) r
           \<and> sublist (py ''Generated: '' @ generated) r
           \<and> sublist (py ''INSIGHTS:\<newline>\<newline>'' @ fstr (ss_insights st)) r
           \<and> sublist (py ''Document Text (excerpt):\<newline>'' @ take 2000 document_text
                        @ py ''...'') r))"
proof (intro conjI impI)
  assume q: "ss_question st = Some question"
  let ?m = "py ''# Document Insights\<newline>\<newline>**Document:** '' @ fstr (ss_filename st)
        @ py ''  \<newline>**Question:** '' @ question
        @ py ''  \<newline>**Generated:** '' @ generated
        @ py ''\<newline>\<newline>---\<newline>\<newline>## Insights\<newline>\<newline>''
        @ fstr (ss_insights st)
        @ py ''\<newline>\<newline>---\<newline>\<newline>*Generated by Document Insights Generator*\<newline>''"
  have m: "markdown_text st generated = Inr ?m" using q by (rule markdown_layout)
  have m0: "prefix (py ''# Document Insights'') ?m"
    by (simp add: py_def)
  have m1: "sublist (py ''**Document:** '' @ fstr (ss_filename st)) ?m"
    by (rule sublist_in [where a = "py ''# Document Insights\<newline>\<newline>''"
          and b = "py ''  \<newline>**Question:** '' @ question
        @ py ''  \<newline>**Generated:** '' @ generated
        @ py ''\<newline>\<newline>---\<newline>\<newline>## Insights\<newline>\<newline>''
        @ fstr (ss_insights st)
        @ py ''\<newline>\<newline>---\<newline>\<newline>*Generated by Document Insights Generator*\<newline>''"])
      (simp add: py_def)
  have m2: "sublist (py ''**Question:** '' @ question) ?m"
    by (rule sublist_in [where a = "py ''# Document Insights\<newline>\<newline>**Document:** ''
          @ fstr (ss_filename st) @ py ''  \<newline>''"
          and b = "py ''  \<newline>**Generated:** '' @ generated
        @ py ''\<newline>\<newline>---\<newline>\<newline>## Insights\<newline>\<newline>''
        @ fstr (ss_insights st)
        @ py ''\<newline>\<newline>---\<newline>\<newline>*Generated by Document Insights Generator*\<newline>''"])
      (simp add: py_def)
  have m3: "sublist (py ''**Generated:** '' @ generated) ?m"
    by (rule sublist_in [where a = "py ''# Document Insights\<newline>\<newline>**Document:** ''
          @ fstr (ss_filename st) @ py ''  \<newline>**Question:** '' @ question @ py ''  \<newline>''"
          and b = "py ''\<newline>\<newline>---\<newline>\<newline>## Insights\<newline>\<newline>''
        @ fstr (ss_insights st)
        @ py ''\<newline>\<newline>---\<newline>\<newline>*Generated by Document Insights Generator*\<newline>''"])
      (simp add: py_def)
  have m4: "sublist (py ''## Insights\<newline>\<newline>'' @ fstr (ss_insights st)) ?m"
    by (rule sublist_in [where a = "py ''# Document Insights\<newline>\<newline>**Document:** ''
          @ fstr (ss_filename st) @ py ''  \<newline>**Question:** '' @ question
          @ py ''  \<newline>**Generated:** '' @ generated @ py ''\<newline>\<newline>---\<newline>\<newline>''"
          and b = "py ''\<newline>\<newline>---\<newline>\<newline>*Generated by Document Insights Generator*\<newline>''"])
      (simp add: py_def)
  from m m0 m1 m2 m3 m4
  show "\<exists>m. markdown_text st generated = Inr m
      \<and> prefix (py ''# Document Insights'') m
      \<and> sublist (py ''**Document:** '' @ fstr (ss_filename st)) m
      \<and> sublist (py ''**Question:** '' @ question) m
      \<and> sublist (py ''**Generated:** '' @ generated) m
      \<and> sublist (py ''## Insights\<newline>\<newline>'' @ fstr (ss_insights st)) m"
    by blast
  show "markdown_text (st\<lparr>ss_document_text := d\<rparr>) generated = markdown_text st generated"
    by (simp add: markdown_text_def q)
  assume d: "ss_document_text st = Some document_text"
  let ?r = "py ''Document: '' @ fstr (ss_filename st)
        @ py ''\<newline>Question: '' @ question
        @ py ''\<newline>Generated: '' @ generated
        @ py ''\<newline>\<newline>'' @ rule80 @ py ''\<newline>\<newline>INSIGHTS:\<newline>\<newline>''
        @ fstr (ss_insights st)
        @ py ''\<newline>\<newline>'' @ rule80 @ py ''\<newline>\<newline>Document Text (excerpt):\<newline>''
        @ take 2000 document_text @ py ''...\<newline>''"
  have r: "result_text st generated = Inr ?r" using q d by (rule result_layout)
  have r1: "sublist (py ''Document: '' @ fstr (ss_filename st)) ?r"
    by (rule sublist_in [where a = "[]"
          and b = "py ''\<newline>Question: '' @ question
        @ py ''\<newline>Generated: '' @ generated
        @ py ''\<newline>\<newline>'' @ rule80 @ py ''\<newline>\<newline>INSIGHTS:\<newline>\<newline>''
        @ fstr (ss_insights st)
        @ py ''\<newline>\<newline>'' @ rule80 @ py ''\<newline>\<newline>Document Text (excerpt):\<newline>''
        @ take 2000 document_text @ py ''...\<newline>''"])
      (simp add: py_def)
  have r2: "sublist (py ''Question: '' @ question) ?r"
    by (rule sublist_in [where a = "py ''Document: '' @ fstr (ss_filename st) @ py ''\<newline>''"
          and b = "py ''\<newline>Generated: '' @ generated
        @ py ''\<newline>\<newline>'' @ rule80 @ py ''\<newline>\<newline>INSIGHTS:\<newline>\<newline>''
        @ fstr (ss_insights st)
        @ py ''\<newline>\<newline>'' @ rule80 @ py ''\<newline>\<newline>Document Text (excerpt):\<newline>''
        @ take 2000 document_text @ py ''...\<newline>''"])
      (simp add: py_def)
  have r3: "sublist (py ''Generated: '' @ generated) ?r"
    by (rule sublist_in [where a = "py ''Document: '' @ fstr (ss_filename st)
          @ py ''\<newline>Question: '' @ question @ py ''\<newline>''"
          and b = "py ''\<newline>\<newline>'' @ rule80 @ py ''\<newline>\<newline>INSIGHTS:\<newline>\<newline>''
        @ fstr (ss_insights st)
        @ py ''\<newline>\<newline>'' @ rule80 @ py ''\<newline>\<newline>Document Text (excerpt):\<newline>''
        @ take 2000 document_text @ py ''...\<newline>''"])
      (simp add: py_def)
  have r4: "sublist (py ''INSIGHTS:\<newline>\<newline>'' @ fstr (ss_insights st)) ?r"
    by (rule sublist_in [where a = "py ''Document: '' @ fstr (ss_filename st)
          @ py ''\<newline>Question: '' @ question @ py ''\<newline>Generated: '' @ generated
          @ py ''\<newline>\<newline>'' @ rule80 @ py ''\<newline>\<newline>''"
          and b = "py ''\<newline>\<newline>'' @ rule80 @ py ''\<newline>\<newline>Document Text (excerpt):\<newline>''
        @ take 2000 document_text @ py ''...\<newline>''"])
      (simp add: py_def)
  have r5: "sublist (py ''Document Text (excerpt):\<newline>'' @ take 2000 document_text @ py ''...'') ?r"
    by (rule sublist_in [where a = "py ''Document: '' @ fstr (ss_filename st)
          @ py ''\<newline>Question: '' @ question @ py ''\<newline>Generated: '' @ generated
          @ py ''\<newline>\<newline>'' @ rule80 @ py ''\<newline>\<newline>INSIGHTS:\<newline>\<newline>''
          @ fstr (ss_insights st) @ py ''\<newline>\<newline>'' @ rule80 @ py ''\<newline>\<newline>''"
          and b = "py ''\<newline>''"])
      (simp add: py_def)
  from r r1 r2 r3 r4 r5
  show "\<exists>r. result_text st generated = Inr r
           \<and> sublist (py ''Document: '' @ fstr (ss_filename st)) r
           \<and> sublist (py ''Question: '' @ question) r
           \<and> sublist (py ''Generated: '' @ generated) r
           \<and> sublist (py ''INSIGHTS:\<newline>\<newline>'' @ fstr (ss_insights st)) r
           \<and> sublist (py ''Document Text (excerpt):\<newline>'' @ take 2000 document_text
                        @ py ''...'') r"
    by blast
qed

theorem markdown_report_fields_witness:
  "ss_question example_session = Some (py ''What is the conclusion?'')
   \<and> markdown_text (example_session\<lparr>ss_document_text := Some (py ''Another text'')\<rparr>)
        (py ''2024-01-02 03:04:05'')
     = markdown_text example_session (py ''2024-01-02 03:04:05'')"
proof -
  have q: "ss_question example_session = Some (py ''What is the conclusion?'')"
    by (simp add: example_session_def)
  from markdown_report_fields [OF q, of "py ''2024-01-02 03:04:05''" "Some (py ''Another text'')"] q
  show ?thesis by blast
qed

end
